theory Spec2Isabelle
  imports Main
begin

section \<open>Values that cross the boundary\<close>

text \<open>
  Package \<open>sql\<close> (file \<open>sql.go\<close>) wraps the handles of Go's \<open>database/sql\<close>. The native
  package is outside the repository, so its values are opaque here: a native object is
  identified by a number (its address), a Go pointer \<open>*T\<close> is \<open>T option\<close> with \<open>None\<close> for
  \<open>nil\<close>, and a value of an interface type is likewise \<open>None\<close> when it is the nil interface.
\<close>

type_synonym 'a ptr = "'a option"

datatype error = Error string

datatype Context = Context (canceled: bool)

datatype any = Nil_any | Int_any int | String_any string | NamedArg_any string any

datatype sql_DB = sql_DB nat
datatype sql_Stmt = sql_Stmt nat
datatype sql_Tx = sql_Tx nat
datatype sql_Row = sql_Row nat
datatype sql_Rows = sql_Rows nat
datatype sql_Result = sql_Result (LastInsertId: int) (RowsAffected: int)
datatype sql_TxOptions = sql_TxOptions (Isolation: int) (ReadOnly: bool)
datatype driver_Driver = driver_Driver nat
datatype driver_Connector = driver_Connector nat

text \<open>
  The aliases of \<open>sql.go\<close> lines 61 to 77 that occur in the wrappers' signatures. A Go
  alias declaration \<open>type T = sql.T\<close> is a second name of the same type, which is what a
  type synonym is.
\<close>

type_synonym TxOptions = sql_TxOptions
type_synonym Row = sql_Row
type_synonym Rows = sql_Rows
type_synonym Result = "sql_Result option"

text \<open>
  A call into the native package runs in the state of the outside world (the database,
  the connection pool, the driver) and either panics or returns; the world after the call
  is part of its result.
\<close>

datatype 'a outcome = Panic string | Return 'a

type_synonym ('a, 'w) call = "'w \<Rightarrow> 'a outcome \<times> 'w"

section \<open>The native package, as the wrappers use it\<close>

text \<open>
  Every function and method of \<open>database/sql\<close> that \<open>sql.go\<close> calls, or that a wrapper
  inherits from the handle it embeds, is a field of this record. The wrappers below take
  the record as a parameter, so each theorem about them holds for every native
  implementation, a real driver and a test double alike.
\<close>

record 'w database_sql =
  sql_Open :: "string \<Rightarrow> string \<Rightarrow> (sql_DB ptr \<times> error option, 'w) call"
  sql_OpenDB :: "driver_Connector option \<Rightarrow> (sql_DB ptr, 'w) call"
  DB_PingContext :: "sql_DB ptr \<Rightarrow> Context \<Rightarrow> (error option, 'w) call"
  DB_PrepareContext :: "sql_DB ptr \<Rightarrow> Context \<Rightarrow> string \<Rightarrow> (sql_Stmt ptr \<times> error option, 'w) call"
  DB_ExecContext :: "sql_DB ptr \<Rightarrow> Context \<Rightarrow> string \<Rightarrow> any list \<Rightarrow> (Result \<times> error option, 'w) call"
  DB_QueryContext :: "sql_DB ptr \<Rightarrow> Context \<Rightarrow> string \<Rightarrow> any list \<Rightarrow> (Rows ptr \<times> error option, 'w) call"
  DB_QueryRowContext :: "sql_DB ptr \<Rightarrow> Context \<Rightarrow> string \<Rightarrow> any list \<Rightarrow> (Row ptr, 'w) call"
  DB_BeginTx :: "sql_DB ptr \<Rightarrow> Context \<Rightarrow> TxOptions ptr \<Rightarrow> (sql_Tx ptr \<times> error option, 'w) call"
  DB_Driver :: "sql_DB ptr \<Rightarrow> (driver_Driver option, 'w) call"
  DB_Close :: "sql_DB ptr \<Rightarrow> (error option, 'w) call"
  Stmt_ExecContext :: "sql_Stmt ptr \<Rightarrow> Context \<Rightarrow> any list \<Rightarrow> (Result \<times> error option, 'w) call"
  Stmt_QueryContext :: "sql_Stmt ptr \<Rightarrow> Context \<Rightarrow> any list \<Rightarrow> (Rows ptr \<times> error option, 'w) call"
  Stmt_QueryRowContext :: "sql_Stmt ptr \<Rightarrow> Context \<Rightarrow> any list \<Rightarrow> (Row ptr, 'w) call"
  Stmt_Close :: "sql_Stmt ptr \<Rightarrow> (error option, 'w) call"
  Tx_Commit :: "sql_Tx ptr \<Rightarrow> (error option, 'w) call"
  Tx_Rollback :: "sql_Tx ptr \<Rightarrow> (error option, 'w) call"
  Tx_PrepareContext :: "sql_Tx ptr \<Rightarrow> Context \<Rightarrow> string \<Rightarrow> (sql_Stmt ptr \<times> error option, 'w) call"
  Tx_ExecContext :: "sql_Tx ptr \<Rightarrow> Context \<Rightarrow> string \<Rightarrow> any list \<Rightarrow> (Result \<times> error option, 'w) call"
  Tx_QueryContext :: "sql_Tx ptr \<Rightarrow> Context \<Rightarrow> string \<Rightarrow> any list \<Rightarrow> (Rows ptr \<times> error option, 'w) call"
  Tx_QueryRowContext :: "sql_Tx ptr \<Rightarrow> Context \<Rightarrow> string \<Rightarrow> any list \<Rightarrow> (Row ptr, 'w) call"

section \<open>The wrapper types\<close>

text \<open>
  \<open>sql.go\<close> lines 80 to 90: each wrapper is a struct whose only field is the embedded
  native pointer. The field of an embedded \<open>*sql.DB\<close> is named \<open>DB\<close>, and so on.
\<close>

record db =
  DB :: "sql_DB ptr"

record stmt =
  Stmt :: "sql_Stmt ptr"

record tx =
  Tx :: "sql_Tx ptr"

text \<open>
  A value of the interface type \<open>DB\<close>, \<open>Stmt\<close> or \<open>Tx\<close>, as this package returns it: the nil
  interface, or a wrapper struct.
\<close>

type_synonym DB = "db option"
type_synonym Stmt = "stmt option"
type_synonym Tx = "tx option"

section \<open>Constructors and the DB wrapper\<close>

definition StdDB :: "db \<Rightarrow> sql_DB ptr" where
  "StdDB d = DB d"

definition Open :: "'w database_sql \<Rightarrow> string \<Rightarrow> string \<Rightarrow> (DB \<times> error option, 'w) call" where
  "Open sql driverName dataSourceName w =
     (case sql_Open sql driverName dataSourceName w of
        (Panic p, w') \<Rightarrow> (Panic p, w')
      | (Return (result, err), w') \<Rightarrow>
          if err \<noteq> None then (Return (None, err), w')
          else (Return (Some \<lparr>DB = result\<rparr>, None), w'))"

definition OpenDB :: "'w database_sql \<Rightarrow> driver_Connector option \<Rightarrow> (DB \<times> error option, 'w) call" where
  "OpenDB sql c w =
     (case sql_OpenDB sql c w of
        (Panic p, w') \<Rightarrow> (Panic p, w')
      | (Return result, w') \<Rightarrow> (Return (Some \<lparr>DB = result\<rparr>, None), w'))"

definition db_Ping :: "'w database_sql \<Rightarrow> db \<Rightarrow> Context \<Rightarrow> (error option, 'w) call" where
  "db_Ping sql d ctx = DB_PingContext sql (DB d) ctx"

definition db_Prepare :: "'w database_sql \<Rightarrow> db \<Rightarrow> Context \<Rightarrow> string \<Rightarrow> (Stmt \<times> error option, 'w) call" where
  "db_Prepare sql d ctx query w =
     (case DB_PrepareContext sql (DB d) ctx query w of
        (Panic p, w') \<Rightarrow> (Panic p, w')
      | (Return (result, err), w') \<Rightarrow>
          if err \<noteq> None then (Return (None, err), w')
          else (Return (Some \<lparr>Stmt = result\<rparr>, None), w'))"

definition db_Exec :: "'w database_sql \<Rightarrow> db \<Rightarrow> Context \<Rightarrow> string \<Rightarrow> any list \<Rightarrow> (Result \<times> error option, 'w) call" where
  "db_Exec sql d ctx query args = DB_ExecContext sql (DB d) ctx query args"

definition db_Query :: "'w database_sql \<Rightarrow> db \<Rightarrow> Context \<Rightarrow> string \<Rightarrow> any list \<Rightarrow> (Rows ptr \<times> error option, 'w) call" where
  "db_Query sql d ctx query args = DB_QueryContext sql (DB d) ctx query args"

definition db_QueryRow :: "'w database_sql \<Rightarrow> db \<Rightarrow> Context \<Rightarrow> string \<Rightarrow> any list \<Rightarrow> (Row ptr, 'w) call" where
  "db_QueryRow sql d ctx query args = DB_QueryRowContext sql (DB d) ctx query args"

definition db_BeginTx :: "'w database_sql \<Rightarrow> db \<Rightarrow> Context \<Rightarrow> TxOptions ptr \<Rightarrow> (Tx \<times> error option, 'w) call" where
  "db_BeginTx sql d ctx opts w =
     (case DB_BeginTx sql (DB d) ctx opts w of
        (Panic p, w') \<Rightarrow> (Panic p, w')
      | (Return (result, err), w') \<Rightarrow>
          if err \<noteq> None then (Return (None, err), w')
          else (Return (Some \<lparr>Tx = result\<rparr>, None), w'))"

text \<open>
  \<open>db\<close> declares no \<open>Driver\<close> and no \<open>Close\<close>: Go promotes the methods of the embedded
  \<open>*sql.DB\<close>, so \<open>d.Driver()\<close> is \<open>d.DB.Driver()\<close> and \<open>d.Close()\<close> is \<open>d.DB.Close()\<close>.
\<close>

definition db_Driver :: "'w database_sql \<Rightarrow> db \<Rightarrow> (driver_Driver option, 'w) call" where
  "db_Driver sql d = DB_Driver sql (DB d)"

definition db_Close :: "'w database_sql \<Rightarrow> db \<Rightarrow> (error option, 'w) call" where
  "db_Close sql d = DB_Close sql (DB d)"

section \<open>The Stmt wrapper\<close>

definition StdStmt :: "stmt \<Rightarrow> sql_Stmt ptr" where
  "StdStmt d = Stmt d"

definition stmt_Exec :: "'w database_sql \<Rightarrow> stmt \<Rightarrow> Context \<Rightarrow> any list \<Rightarrow> (Result \<times> error option, 'w) call" where
  "stmt_Exec sql d ctx args = Stmt_ExecContext sql (Stmt d) ctx args"

definition stmt_Query :: "'w database_sql \<Rightarrow> stmt \<Rightarrow> Context \<Rightarrow> any list \<Rightarrow> (Rows ptr \<times> error option, 'w) call" where
  "stmt_Query sql d ctx args = Stmt_QueryContext sql (Stmt d) ctx args"

definition stmt_QueryRow :: "'w database_sql \<Rightarrow> stmt \<Rightarrow> Context \<Rightarrow> any list \<Rightarrow> (Row ptr, 'w) call" where
  "stmt_QueryRow sql d ctx args = Stmt_QueryRowContext sql (Stmt d) ctx args"

text \<open>\<open>Close\<close> is promoted from the embedded \<open>*sql.Stmt\<close>.\<close>

definition stmt_Close :: "'w database_sql \<Rightarrow> stmt \<Rightarrow> (error option, 'w) call" where
  "stmt_Close sql d = Stmt_Close sql (Stmt d)"

section \<open>The Tx wrapper\<close>

definition StdTx :: "tx \<Rightarrow> sql_Tx ptr" where
  "StdTx t = Tx t"

definition tx_Prepare :: "'w database_sql \<Rightarrow> tx \<Rightarrow> Context \<Rightarrow> string \<Rightarrow> (Stmt \<times> error option, 'w) call" where
  "tx_Prepare sql t ctx query w =
     (case Tx_PrepareContext sql (Tx t) ctx query w of
        (Panic p, w') \<Rightarrow> (Panic p, w')
      | (Return (result, err), w') \<Rightarrow>
          if err \<noteq> None then (Return (None, err), w')
          else (Return (Some \<lparr>Stmt = result\<rparr>, None), w'))"

definition tx_Exec :: "'w database_sql \<Rightarrow> tx \<Rightarrow> Context \<Rightarrow> string \<Rightarrow> any list \<Rightarrow> (Result \<times> error option, 'w) call" where
  "tx_Exec sql t ctx query args = Tx_ExecContext sql (Tx t) ctx query args"

definition tx_Query :: "'w database_sql \<Rightarrow> tx \<Rightarrow> Context \<Rightarrow> string \<Rightarrow> any list \<Rightarrow> (Rows ptr \<times> error option, 'w) call" where
  "tx_Query sql t ctx query args = Tx_QueryContext sql (Tx t) ctx query args"

definition tx_QueryRow :: "'w database_sql \<Rightarrow> tx \<Rightarrow> Context \<Rightarrow> string \<Rightarrow> any list \<Rightarrow> (Row ptr, 'w) call" where
  "tx_QueryRow sql t ctx query args = Tx_QueryRowContext sql (Tx t) ctx query args"

text \<open>\<open>Commit\<close> and \<open>Rollback\<close> are promoted from the embedded \<open>*sql.Tx\<close>.\<close>

definition tx_Commit :: "'w database_sql \<Rightarrow> tx \<Rightarrow> (error option, 'w) call" where
  "tx_Commit sql t = Tx_Commit sql (Tx t)"

definition tx_Rollback :: "'w database_sql \<Rightarrow> tx \<Rightarrow> (error option, 'w) call" where
  "tx_Rollback sql t = Tx_Rollback sql (Tx t)"

section \<open>What forwarding means for an operation that returns a wrapper\<close>

text \<open>
  \<open>Prepare\<close> and \<open>BeginTx\<close> (and \<open>Open\<close>) cannot return the native handle itself, since
  their result type is an interface of this package. The spec's wording for them
  (section 4.1: a wrapper on success, the native error forwarded, no wrapper on error)
  is this relation between the result of the native call and the result of the wrapper
  method: a panic is the same panic, a native error is returned as it is with the nil
  interface, and a native success is a wrapper from which \<open>unwrap\<close> gives back exactly
  the native handle. The world after the call is the one the native call left.
\<close>

definition forwards_wrapped ::
  "('x \<Rightarrow> 'h ptr) \<Rightarrow> ('h ptr \<times> error option) outcome \<times> 'w \<Rightarrow>
     ('x option \<times> error option) outcome \<times> 'w \<Rightarrow> bool" where
  "forwards_wrapped unwrap native_result wrapper_result =
     (case native_result of
        (Panic p, w') \<Rightarrow> wrapper_result = (Panic p, w')
      | (Return (r, Some e), w') \<Rightarrow> wrapper_result = (Return (None, Some e), w')
      | (Return (r, None), w') \<Rightarrow>
          (case wrapper_result of
             (Return (Some x, None), w'') \<Rightarrow> w'' = w' \<and> unwrap x = r
           | _ \<Rightarrow> False))"

section \<open>A caller's sequence of terminal calls on one transaction\<close>

text \<open>
  The methods a caller can invoke to finish a transaction, and the run of a list of such
  calls, one after the other, on the same wrapper (\<open>tx_run\<close>) or directly on a native
  handle (\<open>Tx_run\<close>). A panic ends the run, as it ends the calling goroutine.
\<close>

datatype tx_call = Commit | Rollback

fun tx_run :: "'w database_sql \<Rightarrow> tx \<Rightarrow> tx_call list \<Rightarrow> 'w \<Rightarrow> error option outcome list \<times> 'w" where
  "tx_run sql t [] w = ([], w)"
| "tx_run sql t (c # cs) w =
     (case (case c of Commit \<Rightarrow> tx_Commit sql t w | Rollback \<Rightarrow> tx_Rollback sql t w) of
        (Panic p, w') \<Rightarrow> ([Panic p], w')
      | (Return e, w') \<Rightarrow> (case tx_run sql t cs w' of (rs, w'') \<Rightarrow> (Return e # rs, w'')))"

fun Tx_run :: "'w database_sql \<Rightarrow> sql_Tx ptr \<Rightarrow> tx_call list \<Rightarrow> 'w \<Rightarrow> error option outcome list \<times> 'w" where
  "Tx_run sql h [] w = ([], w)"
| "Tx_run sql h (c # cs) w =
     (case (case c of Commit \<Rightarrow> Tx_Commit sql h w | Rollback \<Rightarrow> Tx_Rollback sql h w) of
        (Panic p, w') \<Rightarrow> ([Panic p], w')
      | (Return e, w') \<Rightarrow> (case Tx_run sql h cs w' of (rs, w'') \<Rightarrow> (Return e # rs, w'')))"

section \<open>The declarations of the package\<close>

text \<open>
  Interface satisfaction and alias identity are facts about the declarations of
  \<open>sql.go\<close>, settled by the Go compiler before any code runs. The declarations are data
  here: a type expression, a method signature, an interface as its list of methods, an
  alias table, and a wrapper struct with the type it embeds and the methods declared on
  it. \<open>Local n\<close> is a type named \<open>n\<close> in this package; \<open>Qualified p n\<close> is \<open>n\<close> of the
  imported package with path \<open>p\<close>; \<open>Predeclared\<close> covers \<open>string\<close> and \<open>error\<close>.
\<close>

datatype gotype =
    Local string
  | Qualified string string
  | Predeclared string
  | PointerTo gotype
  | EmptyInterface

text \<open>
  \<open>Func ps v rs\<close>: the fixed parameters, the element type of a final variadic parameter
  \<open>...T\<close> when there is one, and the results.
\<close>

datatype signature = Func (params: "gotype list") (variadic: "gotype option") (results: "gotype list")

type_synonym method_decl = "string \<times> signature"

abbreviation ctxT :: gotype where
  "ctxT \<equiv> Qualified ''context'' ''Context''"

abbreviation stringT :: gotype where
  "stringT \<equiv> Predeclared ''string''"

abbreviation errorT :: gotype where
  "errorT \<equiv> Predeclared ''error''"

abbreviation native :: "string \<Rightarrow> gotype" where
  "native n \<equiv> Qualified ''database/sql'' n"

text \<open>The interfaces, \<open>sql.go\<close> lines 19 to 56 and 182 to 184, method by method.\<close>

definition DB_interface :: "method_decl list" where
  "DB_interface =
    [(''Ping'', Func [ctxT] None [errorT]),
     (''Prepare'', Func [ctxT, stringT] None [Local ''Stmt'', errorT]),
     (''BeginTx'', Func [ctxT, PointerTo (Local ''TxOptions'')] None [Local ''Tx'', errorT]),
     (''Exec'', Func [ctxT, stringT] (Some EmptyInterface) [Local ''Result'', errorT]),
     (''Query'', Func [ctxT, stringT] (Some EmptyInterface) [PointerTo (Local ''Rows''), errorT]),
     (''QueryRow'', Func [ctxT, stringT] (Some EmptyInterface) [PointerTo (Local ''Row'')]),
     (''Driver'', Func [] None [Qualified ''database/sql/driver'' ''Driver'']),
     (''StdDB'', Func [] None [PointerTo (native ''DB'')])]"

definition Conn_interface :: "method_decl list" where
  "Conn_interface =
    [(''Ping'', Func [ctxT] None [errorT]),
     (''Prepare'', Func [ctxT, stringT] None [Local ''Stmt'', errorT]),
     (''BeginTx'', Func [ctxT, PointerTo (Local ''TxOptions'')] None [Local ''Tx'', errorT]),
     (''Exec'', Func [ctxT, stringT] (Some EmptyInterface) [Local ''Result'', errorT]),
     (''Query'', Func [ctxT, stringT] (Some EmptyInterface) [PointerTo (Local ''Rows''), errorT]),
     (''QueryRow'', Func [ctxT, stringT] (Some EmptyInterface) [PointerTo (Local ''Row'')]),
     (''Close'', Func [] None [errorT]),
     (''StdConn'', Func [] None [PointerTo (native ''Conn'')])]"

definition Stmt_interface :: "method_decl list" where
  "Stmt_interface =
    [(''Exec'', Func [ctxT] (Some EmptyInterface) [Local ''Result'', errorT]),
     (''Query'', Func [ctxT] (Some EmptyInterface) [PointerTo (Local ''Rows''), errorT]),
     (''QueryRow'', Func [ctxT] (Some EmptyInterface) [PointerTo (Local ''Row'')]),
     (''Close'', Func [] None [errorT]),
     (''StdStmt'', Func [] None [PointerTo (native ''Stmt'')])]"

definition Tx_interface :: "method_decl list" where
  "Tx_interface =
    [(''Commit'', Func [] None [errorT]),
     (''Rollback'', Func [] None [errorT]),
     (''Prepare'', Func [ctxT, stringT] None [Local ''Stmt'', errorT]),
     (''Exec'', Func [ctxT, stringT] (Some EmptyInterface) [Local ''Result'', errorT]),
     (''Query'', Func [ctxT, stringT] (Some EmptyInterface) [PointerTo (Local ''Rows''), errorT]),
     (''QueryRow'', Func [ctxT, stringT] (Some EmptyInterface) [PointerTo (Local ''Row'')]),
     (''StdTx'', Func [] None [PointerTo (native ''Tx'')])]"

definition Scanner_interface :: "method_decl list" where
  "Scanner_interface = [(''Scan'', Func [] (Some EmptyInterface) [errorT])]"

text \<open>The alias declarations \<open>type T = sql.T\<close>, \<open>sql.go\<close> lines 61 to 77, in their order.\<close>

definition aliases :: "(string \<times> gotype) list" where
  "aliases =
    [(''TxOptions'', native ''TxOptions''),
     (''Row'', native ''Row''),
     (''Rows'', native ''Rows''),
     (''IsolationLevel'', native ''IsolationLevel''),
     (''Result'', native ''Result''),
     (''NamedArg'', native ''NamedArg''),
     (''NullBool'', native ''NullBool''),
     (''NullFloat64'', native ''NullFloat64''),
     (''NullInt32'', native ''NullInt32''),
     (''NullInt64'', native ''NullInt64''),
     (''NullString'', native ''NullString''),
     (''NullTime'', native ''NullTime''),
     (''Out'', native ''Out''),
     (''RawBytes'', native ''RawBytes''),
     (''DBStats'', native ''DBStats'')]"

text \<open>
  The wrapper structs, lines 80 to 90, each with the methods the file declares on it
  (lines 92 to 178), in the order of the file. All receivers are values.
\<close>

record wrapper_decl =
  wrapper_name :: string
  embedded_field :: gotype
  declared_methods :: "method_decl list"

definition db_decl :: wrapper_decl where
  "db_decl = \<lparr>wrapper_name = ''db'', embedded_field = PointerTo (native ''DB''),
     declared_methods =
      [(''StdDB'', Func [] None [PointerTo (native ''DB'')]),
       (''Ping'', Func [ctxT] None [errorT]),
       (''Prepare'', Func [ctxT, stringT] None [Local ''Stmt'', errorT]),
       (''Exec'', Func [ctxT, stringT] (Some EmptyInterface) [Local ''Result'', errorT]),
       (''Query'', Func [ctxT, stringT] (Some EmptyInterface) [PointerTo (Local ''Rows''), errorT]),
       (''QueryRow'', Func [ctxT, stringT] (Some EmptyInterface) [PointerTo (Local ''Row'')]),
       (''BeginTx'', Func [ctxT, PointerTo (Local ''TxOptions'')] None [Local ''Tx'', errorT])]\<rparr>"

definition stmt_decl :: wrapper_decl where
  "stmt_decl = \<lparr>wrapper_name = ''stmt'', embedded_field = PointerTo (native ''Stmt''),
     declared_methods =
      [(''StdStmt'', Func [] None [PointerTo (native ''Stmt'')]),
       (''Exec'', Func [ctxT] (Some EmptyInterface) [Local ''Result'', errorT]),
       (''Query'', Func [ctxT] (Some EmptyInterface) [PointerTo (Local ''Rows''), errorT]),
       (''QueryRow'', Func [ctxT] (Some EmptyInterface) [PointerTo (Local ''Row'')])]\<rparr>"

definition tx_decl :: wrapper_decl where
  "tx_decl = \<lparr>wrapper_name = ''tx'', embedded_field = PointerTo (native ''Tx''),
     declared_methods =
      [(''StdTx'', Func [] None [PointerTo (native ''Tx'')]),
       (''Prepare'', Func [ctxT, stringT] None [Local ''Stmt'', errorT]),
       (''Exec'', Func [ctxT, stringT] (Some EmptyInterface) [Local ''Result'', errorT]),
       (''Query'', Func [ctxT, stringT] (Some EmptyInterface) [PointerTo (Local ''Rows''), errorT]),
       (''QueryRow'', Func [ctxT, stringT] (Some EmptyInterface) [PointerTo (Local ''Row'')])]\<rparr>"

text \<open>Every struct type the package declares.\<close>

definition wrapper_decls :: "wrapper_decl list" where
  "wrapper_decls = [db_decl, stmt_decl, tx_decl]"

text \<open>
  The conformance assertions of lines 12 to 16, \<open>var _ DB = db{}\<close> and its two siblings:
  the interface on the left, the struct whose zero value is assigned on the right.
\<close>

definition conformance_assertions :: "(method_decl list \<times> wrapper_decl) list" where
  "conformance_assertions =
    [(DB_interface, db_decl), (Stmt_interface, stmt_decl), (Tx_interface, tx_decl)]"

subsection \<open>Go's rules over the declarations\<close>

text \<open>
  Type identity sees through aliases: an alias names its target, every other local name
  names a type of its own.
\<close>

fun resolve :: "gotype \<Rightarrow> gotype" where
  "resolve (Local n) = (case map_of aliases n of Some t \<Rightarrow> t | None \<Rightarrow> Local n)"
| "resolve (PointerTo t) = PointerTo (resolve t)"
| "resolve t = t"

definition identical :: "gotype \<Rightarrow> gotype \<Rightarrow> bool" where
  "identical t u = (resolve t = resolve u)"

fun resolve_sig :: "signature \<Rightarrow> signature" where
  "resolve_sig (Func ps v rs) = Func (map resolve ps) (map_option resolve v) (map resolve rs)"

text \<open>
  A method set has a method when it holds one of that name with an identical signature.
\<close>

definition has_method :: "method_decl list \<Rightarrow> method_decl \<Rightarrow> bool" where
  "has_method ms m =
     (case map_of ms (fst m) of
        None \<Rightarrow> False
      | Some sg \<Rightarrow> resolve_sig sg = resolve_sig (snd m))"

text \<open>
  The method set of a wrapper struct: the methods declared on it, then the methods
  promoted from the embedded field, except those a declared method of the same name
  hides. \<open>env\<close> gives the method set of each type of an imported package.
\<close>

definition method_set :: "(gotype \<Rightarrow> method_decl list) \<Rightarrow> wrapper_decl \<Rightarrow> method_decl list" where
  "method_set env s =
     declared_methods s @
     filter (\<lambda>m. map_of (declared_methods s) (fst m) = None) (env (embedded_field s))"

text \<open>The method set of a type expression of this package that names an imported type.\<close>

definition methods_of_type :: "(gotype \<Rightarrow> method_decl list) \<Rightarrow> gotype \<Rightarrow> method_decl list" where
  "methods_of_type env t = env (resolve t)"

primrec implements :: "method_decl list \<Rightarrow> method_decl list \<Rightarrow> bool" where
  "implements ms [] = True"
| "implements ms (m # iface) = (has_method ms m \<and> implements ms iface)"

primrec assertions_hold :: "(gotype \<Rightarrow> method_decl list) \<Rightarrow> (method_decl list \<times> wrapper_decl) list \<Rightarrow> bool" where
  "assertions_hold env [] = True"
| "assertions_hold env (a # as) = (implements (method_set env (snd a)) (fst a) \<and> assertions_hold env as)"

primrec some_implements :: "(gotype \<Rightarrow> method_decl list) \<Rightarrow> wrapper_decl list \<Rightarrow> method_decl list \<Rightarrow> bool" where
  "some_implements env [] iface = False"
| "some_implements env (s # ss) iface = (implements (method_set env s) iface \<or> some_implements env ss iface)"

section \<open>The native package, as the spec describes it\<close>

text \<open>
  Modelled from the spec: the method sets of the handle types of \<open>database/sql\<close>, an
  imported package whose source is not in the repository. The entries are the native
  operations that \<open>sql.go\<close> calls (\<open>PingContext\<close>, \<open>PrepareContext\<close>, \<open>ExecContext\<close>,
  \<open>QueryContext\<close>, \<open>QueryRowContext\<close>, \<open>BeginTx\<close>), their variants without a context
  (the suffix convention of section 1 of the spec), and the operations the spec says the
  wrappers expose from the native handle: the driver object of a DB, \<open>Close\<close> of a
  statement, \<open>Commit\<close> and \<open>Rollback\<close> of a transaction (sections 2 and 4), and \<open>Scan\<close>
  of the single-row and row-set types (section 4.5). Every method has a pointer
  receiver, so the method set belongs to the pointer type.
\<close>

fun database_sql_methods :: "gotype \<Rightarrow> method_decl list" where
  "database_sql_methods (PointerTo (Qualified p n)) =
     (if p \<noteq> ''database/sql'' then []
      else if n = ''DB'' then
        [(''PingContext'', Func [ctxT] None [errorT]),
         (''Ping'', Func [] None [errorT]),
         (''PrepareContext'', Func [ctxT, stringT] None [PointerTo (native ''Stmt''), errorT]),
         (''Prepare'', Func [stringT] None [PointerTo (native ''Stmt''), errorT]),
         (''ExecContext'', Func [ctxT, stringT] (Some EmptyInterface) [native ''Result'', errorT]),
         (''Exec'', Func [stringT] (Some EmptyInterface) [native ''Result'', errorT]),
         (''QueryContext'', Func [ctxT, stringT] (Some EmptyInterface) [PointerTo (native ''Rows''), errorT]),
         (''Query'', Func [stringT] (Some EmptyInterface) [PointerTo (native ''Rows''), errorT]),
         (''QueryRowContext'', Func [ctxT, stringT] (Some EmptyInterface) [PointerTo (native ''Row'')]),
         (''QueryRow'', Func [stringT] (Some EmptyInterface) [PointerTo (native ''Row'')]),
         (''BeginTx'', Func [ctxT, PointerTo (native ''TxOptions'')] None [PointerTo (native ''Tx''), errorT]),
         (''Begin'', Func [] None [PointerTo (native ''Tx''), errorT]),
         (''Driver'', Func [] None [Qualified ''database/sql/driver'' ''Driver'']),
         (''Close'', Func [] None [errorT])]
      else if n = ''Stmt'' then
        [(''ExecContext'', Func [ctxT] (Some EmptyInterface) [native ''Result'', errorT]),
         (''Exec'', Func [] (Some EmptyInterface) [native ''Result'', errorT]),
         (''QueryContext'', Func [ctxT] (Some EmptyInterface) [PointerTo (native ''Rows''), errorT]),
         (''Query'', Func [] (Some EmptyInterface) [PointerTo (native ''Rows''), errorT]),
         (''QueryRowContext'', Func [ctxT] (Some EmptyInterface) [PointerTo (native ''Row'')]),
         (''QueryRow'', Func [] (Some EmptyInterface) [PointerTo (native ''Row'')]),
         (''Close'', Func [] None [errorT])]
      else if n = ''Tx'' then
        [(''Commit'', Func [] None [errorT]),
         (''Rollback'', Func [] None [errorT]),
         (''PrepareContext'', Func [ctxT, stringT] None [PointerTo (native ''Stmt''), errorT]),
         (''Prepare'', Func [stringT] None [PointerTo (native ''Stmt''), errorT]),
         (''ExecContext'', Func [ctxT, stringT] (Some EmptyInterface) [native ''Result'', errorT]),
         (''Exec'', Func [stringT] (Some EmptyInterface) [native ''Result'', errorT]),
         (''QueryContext'', Func [ctxT, stringT] (Some EmptyInterface) [PointerTo (native ''Rows''), errorT]),
         (''Query'', Func [stringT] (Some EmptyInterface) [PointerTo (native ''Rows''), errorT]),
         (''QueryRowContext'', Func [ctxT, stringT] (Some EmptyInterface) [PointerTo (native ''Row'')]),
         (''QueryRow'', Func [stringT] (Some EmptyInterface) [PointerTo (native ''Row'')])]
      else if n = ''Row'' then
        [(''Scan'', Func [] (Some EmptyInterface) [errorT])]
      else if n = ''Rows'' then
        [(''Scan'', Func [] (Some EmptyInterface) [errorT]),
         (''Next'', Func [] None [Predeclared ''bool'']),
         (''Close'', Func [] None [errorT])]
      else [])"
| "database_sql_methods t = []"

text \<open>
  Modelled from the spec: a test double for the native package, the fake native handle
  that section 8 of the spec substitutes to observe the wrappers. Its world counts the
  handles it has given out and records the state of every transaction, which moves from
  open to committed or rolled back and then stays there (section 4.4). A method called
  on a nil handle panics, as a Go method that reads its receiver does; a cancelled
  context makes a blocking call return a cancellation error (section 8); a call on a
  finished transaction returns the error \<open>ErrTxDone\<close>.
\<close>

datatype tx_state = TxOpen | TxCommitted | TxRolledBack

record world =
  handles :: nat
  transactions :: "nat \<Rightarrow> tx_state option"

definition world0 :: world where
  "world0 = \<lparr>handles = 0, transactions = (\<lambda>n. None)\<rparr>"

text \<open>
  Two later worlds of the test double: one handle given out, which is transaction 0,
  open in \<open>world1\<close> and committed in \<open>world2\<close>.
\<close>

definition world1 :: world where
  "world1 = \<lparr>handles = 1, transactions = (Map.empty)(0 \<mapsto> TxOpen)\<rparr>"

definition world2 :: world where
  "world2 = \<lparr>handles = 1, transactions = (Map.empty)(0 \<mapsto> TxCommitted)\<rparr>"

definition nil_dereference :: string where
  "nil_dereference = ''invalid memory address or nil pointer dereference''"

definition ErrTxDone :: error where
  "ErrTxDone = Error ''sql: transaction has already been committed or rolled back''"

definition Canceled :: error where
  "Canceled = Error ''context canceled''"

definition fake_Open :: "string \<Rightarrow> string \<Rightarrow> (sql_DB ptr \<times> error option, world) call" where
  "fake_Open driverName dataSourceName w =
     (if driverName = ''fake''
      then (Return (Some (sql_DB (handles w)), None), w\<lparr>handles := Suc (handles w)\<rparr>)
      else (Return (None, Some (Error ''sql: unknown driver'')), w))"

definition fake_OpenDB :: "driver_Connector option \<Rightarrow> (sql_DB ptr, world) call" where
  "fake_OpenDB c w = (Return (Some (sql_DB (handles w))), w\<lparr>handles := Suc (handles w)\<rparr>)"

definition fake_ping :: "'h ptr \<Rightarrow> Context \<Rightarrow> (error option, world) call" where
  "fake_ping h ctx w =
     (case h of
        None \<Rightarrow> (Panic nil_dereference, w)
      | Some _ \<Rightarrow> (Return (if canceled ctx then Some Canceled else None), w))"

definition fake_prepare :: "'h ptr \<Rightarrow> Context \<Rightarrow> string \<Rightarrow> (sql_Stmt ptr \<times> error option, world) call" where
  "fake_prepare h ctx query w =
     (case h of
        None \<Rightarrow> (Panic nil_dereference, w)
      | Some _ \<Rightarrow>
          if canceled ctx then (Return (None, Some Canceled), w)
          else if query = [] then (Return (None, Some (Error ''syntax error'')), w)
          else (Return (Some (sql_Stmt (handles w)), None), w\<lparr>handles := Suc (handles w)\<rparr>))"

definition fake_exec :: "'h ptr \<Rightarrow> Context \<Rightarrow> any list \<Rightarrow> (Result \<times> error option, world) call" where
  "fake_exec h ctx args w =
     (case h of
        None \<Rightarrow> (Panic nil_dereference, w)
      | Some _ \<Rightarrow>
          if canceled ctx then (Return (None, Some Canceled), w)
          else (Return (Some (sql_Result 0 (int (length args))), None), w))"

definition fake_query :: "'h ptr \<Rightarrow> Context \<Rightarrow> any list \<Rightarrow> (Rows ptr \<times> error option, world) call" where
  "fake_query h ctx args w =
     (case h of
        None \<Rightarrow> (Panic nil_dereference, w)
      | Some _ \<Rightarrow>
          if canceled ctx then (Return (None, Some Canceled), w)
          else (Return (Some (sql_Rows (handles w)), None), w\<lparr>handles := Suc (handles w)\<rparr>))"

definition fake_query_row :: "'h ptr \<Rightarrow> Context \<Rightarrow> any list \<Rightarrow> (Row ptr, world) call" where
  "fake_query_row h ctx args w =
     (case h of
        None \<Rightarrow> (Panic nil_dereference, w)
      | Some _ \<Rightarrow> (Return (Some (sql_Row (handles w))), w\<lparr>handles := Suc (handles w)\<rparr>))"

definition fake_BeginTx :: "sql_DB ptr \<Rightarrow> Context \<Rightarrow> TxOptions ptr \<Rightarrow> (sql_Tx ptr \<times> error option, world) call" where
  "fake_BeginTx h ctx opts w =
     (case h of
        None \<Rightarrow> (Panic nil_dereference, w)
      | Some _ \<Rightarrow>
          if canceled ctx then (Return (None, Some Canceled), w)
          else (Return (Some (sql_Tx (handles w)), None),
                w\<lparr>handles := Suc (handles w),
                  transactions := (transactions w)(handles w \<mapsto> TxOpen)\<rparr>))"

definition fake_Driver :: "sql_DB ptr \<Rightarrow> (driver_Driver option, world) call" where
  "fake_Driver h w =
     (case h of
        None \<Rightarrow> (Panic nil_dereference, w)
      | Some _ \<Rightarrow> (Return (Some (driver_Driver 0)), w))"

definition fake_close :: "'h ptr \<Rightarrow> (error option, world) call" where
  "fake_close h w =
     (case h of
        None \<Rightarrow> (Panic nil_dereference, w)
      | Some _ \<Rightarrow> (Return None, w))"

definition fake_finish :: "tx_state \<Rightarrow> sql_Tx ptr \<Rightarrow> (error option, world) call" where
  "fake_finish final h w =
     (case h of
        None \<Rightarrow> (Panic nil_dereference, w)
      | Some (sql_Tx n) \<Rightarrow>
          if transactions w n = Some TxOpen
          then (Return None, w\<lparr>transactions := (transactions w)(n \<mapsto> final)\<rparr>)
          else (Return (Some ErrTxDone), w))"

definition in_tx :: "sql_Tx ptr \<Rightarrow> ('a \<times> error option, world) call \<Rightarrow> 'a \<Rightarrow> ('a \<times> error option, world) call" where
  "in_tx h f none w =
     (case h of
        None \<Rightarrow> (Panic nil_dereference, w)
      | Some (sql_Tx n) \<Rightarrow>
          if transactions w n = Some TxOpen then f w
          else (Return (none, Some ErrTxDone), w))"

definition fake_sql :: "world database_sql" where
  "fake_sql =
    \<lparr>sql_Open = fake_Open,
     sql_OpenDB = fake_OpenDB,
     DB_PingContext = fake_ping,
     DB_PrepareContext = fake_prepare,
     DB_ExecContext = (\<lambda>h ctx query. fake_exec h ctx),
     DB_QueryContext = (\<lambda>h ctx query. fake_query h ctx),
     DB_QueryRowContext = (\<lambda>h ctx query. fake_query_row h ctx),
     DB_BeginTx = fake_BeginTx,
     DB_Driver = fake_Driver,
     DB_Close = fake_close,
     Stmt_ExecContext = fake_exec,
     Stmt_QueryContext = fake_query,
     Stmt_QueryRowContext = fake_query_row,
     Stmt_Close = fake_close,
     Tx_Commit = fake_finish TxCommitted,
     Tx_Rollback = fake_finish TxRolledBack,
     Tx_PrepareContext = (\<lambda>h ctx query. in_tx h (fake_prepare h ctx query) None),
     Tx_ExecContext = (\<lambda>h ctx query args. in_tx h (fake_exec h ctx args) None),
     Tx_QueryContext = (\<lambda>h ctx query args. in_tx h (fake_query h ctx args) None),
     Tx_QueryRowContext = (\<lambda>h ctx query. fake_query_row h ctx)\<rparr>"

section \<open>Lemmas about forwarding\<close>

lemma Open_forwards:
  "forwards_wrapped StdDB (sql_Open sql driverName dataSourceName w) (Open sql driverName dataSourceName w)"
  by (simp add: forwards_wrapped_def Open_def StdDB_def split: prod.split outcome.split option.split)

lemma db_Prepare_forwards:
  "forwards_wrapped StdStmt (DB_PrepareContext sql (StdDB d) ctx query w) (db_Prepare sql d ctx query w)"
  by (simp add: forwards_wrapped_def db_Prepare_def StdDB_def StdStmt_def split: prod.split outcome.split option.split)

lemma db_BeginTx_forwards:
  "forwards_wrapped StdTx (DB_BeginTx sql (StdDB d) ctx opts w) (db_BeginTx sql d ctx opts w)"
  by (simp add: forwards_wrapped_def db_BeginTx_def StdDB_def StdTx_def split: prod.split outcome.split option.split)

lemma tx_Prepare_forwards:
  "forwards_wrapped StdStmt (Tx_PrepareContext sql (StdTx t) ctx query w) (tx_Prepare sql t ctx query w)"
  by (simp add: forwards_wrapped_def tx_Prepare_def StdTx_def StdStmt_def split: prod.split outcome.split option.split)

lemma forwards_wrapped_ok:
  assumes "forwards_wrapped unwrap n f" and "n = (Return (r, None), w')"
  shows "\<exists>x. f = (Return (Some x, None), w') \<and> unwrap x = r"
  using assms
  by (auto simp add: forwards_wrapped_def split: prod.splits outcome.splits option.splits)

lemma tx_run_forwards: "tx_run sql t cs w = Tx_run sql (StdTx t) cs w"
  by (induction cs arbitrary: w)
     (simp_all add: tx_Commit_def tx_Rollback_def StdTx_def split: tx_call.split prod.split outcome.split)

lemma OpenDB_returns:
  "sql_OpenDB sql c w = (Return result, w') \<Longrightarrow>
     OpenDB sql c w = (Return (Some \<lparr>DB = result\<rparr>, None), w')"
  by (simp add: OpenDB_def)

lemma OpenDB_returned:
  assumes "OpenDB sql c w = (Return (r, e), w')"
  shows "e = None \<and> (\<exists>d. r = Some d \<and> sql_OpenDB sql c w = (Return (StdDB d), w'))"
proof (cases "sql_OpenDB sql c w")
  case (Pair out w'')
  with assms show ?thesis
    by (cases out) (auto simp add: OpenDB_def StdDB_def)
qed

lemma OpenDB_panics:
  "OpenDB sql c w = (Panic p, w') \<longleftrightarrow> sql_OpenDB sql c w = (Panic p, w')"
proof (cases "sql_OpenDB sql c w")
  case (Pair out w'')
  then show ?thesis
    by (cases out) (auto simp add: OpenDB_def)
qed

text \<open>
  The four operations that return a wrapper, each tied to the native call it delegates
  to: the wrapper holds the handle the native call returned, the world is the one the
  native call left, and an error is the native one.
\<close>

lemma Open_tied:
  "(\<forall>r w'. sql_Open sql driverName dataSourceName w = (Return (r, None), w') \<longrightarrow>
      Open sql driverName dataSourceName w = (Return (Some \<lparr>DB = r\<rparr>, None), w')) \<and>
   (\<forall>x w'. Open sql driverName dataSourceName w = (Return (Some x, None), w') \<longrightarrow>
      sql_Open sql driverName dataSourceName w = (Return (StdDB x, None), w')) \<and>
   (\<forall>r e w'. sql_Open sql driverName dataSourceName w = (Return (r, Some e), w') \<longrightarrow>
      Open sql driverName dataSourceName w = (Return (None, Some e), w')) \<and>
   (\<forall>x e w'. Open sql driverName dataSourceName w = (Return (x, Some e), w') \<longrightarrow>
      x = None \<and> (\<exists>r. sql_Open sql driverName dataSourceName w = (Return (r, Some e), w')))"
proof (cases "sql_Open sql driverName dataSourceName w")
  case (Pair out w'')
  show ?thesis
  proof (cases out)
    case (Panic p)
    with Pair show ?thesis by (simp add: Open_def)
  next
    case (Return re)
    obtain r e where "re = (r, e)" by (cases re)
    with Pair Return show ?thesis
      by (cases e) (auto simp add: Open_def StdDB_def)
  qed
qed

lemma db_Prepare_tied:
  "(\<forall>r w'. DB_PrepareContext sql (StdDB d) ctx query w = (Return (r, None), w') \<longrightarrow>
      db_Prepare sql d ctx query w = (Return (Some \<lparr>Stmt = r\<rparr>, None), w')) \<and>
   (\<forall>x w'. db_Prepare sql d ctx query w = (Return (Some x, None), w') \<longrightarrow>
      DB_PrepareContext sql (StdDB d) ctx query w = (Return (StdStmt x, None), w')) \<and>
   (\<forall>r e w'. DB_PrepareContext sql (StdDB d) ctx query w = (Return (r, Some e), w') \<longrightarrow>
      db_Prepare sql d ctx query w = (Return (None, Some e), w')) \<and>
   (\<forall>x e w'. db_Prepare sql d ctx query w = (Return (x, Some e), w') \<longrightarrow>
      x = None \<and> (\<exists>r. DB_PrepareContext sql (StdDB d) ctx query w = (Return (r, Some e), w')))"
proof (cases "DB_PrepareContext sql (DB d) ctx query w")
  case (Pair out w'')
  show ?thesis
  proof (cases out)
    case (Panic p)
    with Pair show ?thesis by (simp add: db_Prepare_def StdDB_def)
  next
    case (Return re)
    obtain r e where "re = (r, e)" by (cases re)
    with Pair Return show ?thesis
      by (cases e) (auto simp add: db_Prepare_def StdDB_def StdStmt_def)
  qed
qed

lemma db_BeginTx_tied:
  "(\<forall>r w'. DB_BeginTx sql (StdDB d) ctx opts w = (Return (r, None), w') \<longrightarrow>
      db_BeginTx sql d ctx opts w = (Return (Some \<lparr>Tx = r\<rparr>, None), w')) \<and>
   (\<forall>x w'. db_BeginTx sql d ctx opts w = (Return (Some x, None), w') \<longrightarrow>
      DB_BeginTx sql (StdDB d) ctx opts w = (Return (StdTx x, None), w')) \<and>
   (\<forall>r e w'. DB_BeginTx sql (StdDB d) ctx opts w = (Return (r, Some e), w') \<longrightarrow>
      db_BeginTx sql d ctx opts w = (Return (None, Some e), w')) \<and>
   (\<forall>x e w'. db_BeginTx sql d ctx opts w = (Return (x, Some e), w') \<longrightarrow>
      x = None \<and> (\<exists>r. DB_BeginTx sql (StdDB d) ctx opts w = (Return (r, Some e), w')))"
proof (cases "DB_BeginTx sql (DB d) ctx opts w")
  case (Pair out w'')
  show ?thesis
  proof (cases out)
    case (Panic p)
    with Pair show ?thesis by (simp add: db_BeginTx_def StdDB_def)
  next
    case (Return re)
    obtain r e where "re = (r, e)" by (cases re)
    with Pair Return show ?thesis
      by (cases e) (auto simp add: db_BeginTx_def StdDB_def StdTx_def)
  qed
qed

lemma tx_Prepare_tied:
  "(\<forall>r w'. Tx_PrepareContext sql (StdTx t) ctx query w = (Return (r, None), w') \<longrightarrow>
      tx_Prepare sql t ctx query w = (Return (Some \<lparr>Stmt = r\<rparr>, None), w')) \<and>
   (\<forall>x w'. tx_Prepare sql t ctx query w = (Return (Some x, None), w') \<longrightarrow>
      Tx_PrepareContext sql (StdTx t) ctx query w = (Return (StdStmt x, None), w')) \<and>
   (\<forall>r e w'. Tx_PrepareContext sql (StdTx t) ctx query w = (Return (r, Some e), w') \<longrightarrow>
      tx_Prepare sql t ctx query w = (Return (None, Some e), w')) \<and>
   (\<forall>x e w'. tx_Prepare sql t ctx query w = (Return (x, Some e), w') \<longrightarrow>
      x = None \<and> (\<exists>r. Tx_PrepareContext sql (StdTx t) ctx query w = (Return (r, Some e), w')))"
proof (cases "Tx_PrepareContext sql (Tx t) ctx query w")
  case (Pair out w'')
  show ?thesis
  proof (cases out)
    case (Panic p)
    with Pair show ?thesis by (simp add: tx_Prepare_def StdTx_def)
  next
    case (Return re)
    obtain r e where "re = (r, e)" by (cases re)
    with Pair Return show ?thesis
      by (cases e) (auto simp add: tx_Prepare_def StdTx_def StdStmt_def)
  qed
qed

section \<open>Lemmas about method sets\<close>

lemma map_of_filter_fst:
  "P k \<Longrightarrow> map_of (filter (\<lambda>m. P (fst m)) xs) k = map_of xs k"
  by (induction xs) auto

lemma map_of_filter_None:
  "map_of xs k = None \<Longrightarrow> map_of (filter Q xs) k = None"
  by (induction xs) (auto split: if_splits)

lemma has_method_declared:
  assumes "map_of (declared_methods s) n = Some sg" and "resolve_sig sg = resolve_sig sg'"
  shows "has_method (method_set env s) (n, sg')"
  using assms by (simp add: has_method_def method_set_def map_add_def)

lemma has_method_promoted:
  assumes "map_of (declared_methods s) n = None" and "has_method (env (embedded_field s)) (n, sg)"
  shows "has_method (method_set env s) (n, sg)"
proof -
  have "map_of (filter (\<lambda>m. map_of (declared_methods s) (fst m) = None) (env (embedded_field s))) n
      = map_of (env (embedded_field s)) n"
    using assms(1) map_of_filter_fst [of "\<lambda>k. map_of (declared_methods s) k = None" n] by simp
  with assms show ?thesis
    by (simp add: has_method_def method_set_def map_add_def)
qed

lemma no_method_anywhere:
  assumes "map_of (declared_methods s) n = None" and "map_of (env (embedded_field s)) n = None"
  shows "\<not> has_method (method_set env s) (n, sg)"
  using assms map_of_filter_None [of "env (embedded_field s)" n]
  by (simp add: has_method_def method_set_def map_add_def)

lemma db_implements_DB:
  assumes "has_method (env (PointerTo (native ''DB'')))
      (''Driver'', Func [] None [Qualified ''database/sql/driver'' ''Driver''])"
  shows "implements (method_set env db_decl) DB_interface"
proof -
  have promoted: "has_method (method_set env db_decl)
      (''Driver'', Func [] None [Qualified ''database/sql/driver'' ''Driver''])"
    using assms by (intro has_method_promoted) (simp_all add: db_decl_def)
  have declared: "\<And>n sg. map_of (declared_methods db_decl) n = Some sg \<Longrightarrow>
      has_method (method_set env db_decl) (n, sg)"
    by (rule has_method_declared) simp_all
  show ?thesis
    unfolding DB_interface_def implements.simps
    by (intro conjI TrueI promoted declared) (simp_all add: db_decl_def)
qed

lemma stmt_implements_Stmt:
  assumes "has_method (env (PointerTo (native ''Stmt''))) (''Close'', Func [] None [errorT])"
  shows "implements (method_set env stmt_decl) Stmt_interface"
proof -
  have promoted: "has_method (method_set env stmt_decl) (''Close'', Func [] None [errorT])"
    using assms by (intro has_method_promoted) (simp_all add: stmt_decl_def)
  have declared: "\<And>n sg. map_of (declared_methods stmt_decl) n = Some sg \<Longrightarrow>
      has_method (method_set env stmt_decl) (n, sg)"
    by (rule has_method_declared) simp_all
  show ?thesis
    unfolding Stmt_interface_def implements.simps
    by (intro conjI TrueI promoted declared) (simp_all add: stmt_decl_def)
qed

lemma tx_implements_Tx:
  assumes "has_method (env (PointerTo (native ''Tx''))) (''Commit'', Func [] None [errorT])"
    and "has_method (env (PointerTo (native ''Tx''))) (''Rollback'', Func [] None [errorT])"
  shows "implements (method_set env tx_decl) Tx_interface"
proof -
  have commit: "has_method (method_set env tx_decl) (''Commit'', Func [] None [errorT])"
    using assms(1) by (intro has_method_promoted) (simp_all add: tx_decl_def)
  have rollback: "has_method (method_set env tx_decl) (''Rollback'', Func [] None [errorT])"
    using assms(2) by (intro has_method_promoted) (simp_all add: tx_decl_def)
  have declared: "\<And>n sg. map_of (declared_methods tx_decl) n = Some sg \<Longrightarrow>
      has_method (method_set env tx_decl) (n, sg)"
    by (rule has_method_declared) simp_all
  show ?thesis
    unfolding Tx_interface_def implements.simps
    by (intro conjI TrueI commit rollback declared) (simp_all add: tx_decl_def)
qed

lemma database_sql_has_no_StdConn: "map_of (database_sql_methods t) ''StdConn'' = None"
  by (induction t rule: database_sql_methods.induct) simp_all

text \<open>
  The checks are not trivially true: without the methods promoted from \<open>*sql.DB\<close> the
  struct \<open>db\<close> has no \<open>Driver\<close> and does not implement \<open>DB\<close>, and the interface types
  declared by the package are types of their own, not aliases of native types.
\<close>

lemma conformance_needs_promotion:
  "\<not> implements (method_set (\<lambda>t. []) db_decl) DB_interface"
  by (simp add: DB_interface_def db_decl_def method_set_def has_method_def)

lemma interface_types_are_new_types:
  "\<not> identical (Local ''DB'') (native ''DB'') \<and> \<not> identical (Local ''Stmt'') (native ''Stmt'')"
  by (simp add: aliases_def identical_def)

section \<open>The claims\<close>

text \<open>
  Claim C1. Every wrapper operation is pure forwarding. For \<open>Ping\<close>, \<open>Exec\<close>, \<open>Query\<close>,
  \<open>QueryRow\<close>, \<open>Close\<close>, \<open>Commit\<close> and \<open>Rollback\<close> on the \<open>db\<close>, \<open>stmt\<close> and \<open>tx\<close>
  wrappers, the method called with some arguments in some world gives exactly what the
  corresponding native method gives for the owned handle, the same arguments and the
  same world: the same result, the same error value, the same panic, and the same world
  afterwards. For \<open>Prepare\<close> and \<open>BeginTx\<close>, whose result type is an interface of this
  package, the native error is returned as it is, and a native success \<open>R\<close> is returned
  as the wrapper whose accessor gives back exactly \<open>R\<close> (\<open>forwards_wrapped\<close>).
\<close>

theorem wrappers_forward_verbatim:
  "db_Ping sql d ctx w = DB_PingContext sql (StdDB d) ctx w \<and>
   db_Exec sql d ctx query args w = DB_ExecContext sql (StdDB d) ctx query args w \<and>
   db_Query sql d ctx query args w = DB_QueryContext sql (StdDB d) ctx query args w \<and>
   db_QueryRow sql d ctx query args w = DB_QueryRowContext sql (StdDB d) ctx query args w \<and>
   db_Close sql d w = DB_Close sql (StdDB d) w \<and>
   forwards_wrapped StdStmt (DB_PrepareContext sql (StdDB d) ctx query w) (db_Prepare sql d ctx query w) \<and>
   forwards_wrapped StdTx (DB_BeginTx sql (StdDB d) ctx opts w) (db_BeginTx sql d ctx opts w) \<and>
   stmt_Exec sql s ctx args w = Stmt_ExecContext sql (StdStmt s) ctx args w \<and>
   stmt_Query sql s ctx args w = Stmt_QueryContext sql (StdStmt s) ctx args w \<and>
   stmt_QueryRow sql s ctx args w = Stmt_QueryRowContext sql (StdStmt s) ctx args w \<and>
   stmt_Close sql s w = Stmt_Close sql (StdStmt s) w \<and>
   tx_Commit sql t w = Tx_Commit sql (StdTx t) w \<and>
   tx_Rollback sql t w = Tx_Rollback sql (StdTx t) w \<and>
   tx_Exec sql t ctx query args w = Tx_ExecContext sql (StdTx t) ctx query args w \<and>
   tx_Query sql t ctx query args w = Tx_QueryContext sql (StdTx t) ctx query args w \<and>
   tx_QueryRow sql t ctx query args w = Tx_QueryRowContext sql (StdTx t) ctx query args w \<and>
   forwards_wrapped StdStmt (Tx_PrepareContext sql (StdTx t) ctx query w) (tx_Prepare sql t ctx query w)"
  using db_Prepare_forwards [of sql d ctx query w] db_BeginTx_forwards [of sql d ctx opts w]
    tx_Prepare_forwards [of sql t ctx query w]
  by (simp add: db_Ping_def db_Exec_def db_Query_def db_QueryRow_def db_Close_def
      stmt_Exec_def stmt_Query_def stmt_QueryRow_def stmt_Close_def
      tx_Commit_def tx_Rollback_def tx_Exec_def tx_Query_def tx_QueryRow_def
      StdDB_def StdStmt_def StdTx_def)

text \<open>
  Claim C2, as the spec states it, fails on the code: the package declares the interface
  \<open>Conn\<close> but no type that implements it. Its only struct types are \<open>db\<close>, \<open>stmt\<close> and
  \<open>tx\<close>, and with the method sets of \<open>database/sql\<close> none of the three satisfies
  \<open>Conn\<close>.
\<close>

theorem no_wrapper_implements_Conn_counterexample:
  "\<not> some_implements database_sql_methods wrapper_decls Conn_interface"
proof -
  have "\<And>s. map_of (declared_methods s) ''StdConn'' = None \<Longrightarrow>
      map_of (database_sql_methods (embedded_field s)) ''StdConn'' = None \<Longrightarrow>
      \<not> implements (method_set database_sql_methods s) Conn_interface"
    using no_method_anywhere by (simp add: Conn_interface_def)
  then show ?thesis
    by (simp add: wrapper_decls_def db_decl_def stmt_decl_def tx_decl_def)
qed

text \<open>
  Claim C2, amended. The package declares the interface \<open>Conn\<close> with the same first six
  operations as \<open>DB\<close> (\<open>Ping\<close>, \<open>Prepare\<close>, \<open>BeginTx\<close>, \<open>Exec\<close>, \<open>Query\<close>, \<open>QueryRow\<close>,
  with identical signatures) followed by \<open>Close\<close> and \<open>StdConn\<close>, and it provides no
  concrete type that satisfies it: the struct types are \<open>db\<close>, \<open>stmt\<close> and \<open>tx\<close>, none
  declares \<open>StdConn\<close>, and as long as no embedded native type has a method of that name
  none of them implements \<open>Conn\<close>.
\<close>

theorem Conn_is_declared_without_implementation:
  assumes "\<And>t. map_of (env t) ''StdConn'' = None"
  shows "take 6 Conn_interface = take 6 DB_interface \<and>
         map fst (drop 6 Conn_interface) = [''Close'', ''StdConn''] \<and>
         wrapper_decls = [db_decl, stmt_decl, tx_decl] \<and>
         \<not> some_implements env wrapper_decls Conn_interface"
proof -
  have "\<And>s. map_of (declared_methods s) ''StdConn'' = None \<Longrightarrow>
      \<not> implements (method_set env s) Conn_interface"
    using no_method_anywhere assms by (simp add: Conn_interface_def)
  then have "\<not> some_implements env wrapper_decls Conn_interface"
    by (simp add: wrapper_decls_def db_decl_def stmt_decl_def tx_decl_def)
  then show ?thesis
    by (simp add: Conn_interface_def DB_interface_def wrapper_decls_def)
qed

theorem Conn_is_declared_without_implementation_witness:
  "take 6 Conn_interface = take 6 DB_interface \<and>
   map fst (drop 6 Conn_interface) = [''Close'', ''StdConn''] \<and>
   wrapper_decls = [db_decl, stmt_decl, tx_decl] \<and>
   \<not> some_implements database_sql_methods wrapper_decls Conn_interface"
  by (rule Conn_is_declared_without_implementation
      [of database_sql_methods, OF database_sql_has_no_StdConn])

text \<open>
  Claim C3. \<open>OpenDB\<close> has no error path. Whenever the native \<open>sql.OpenDB\<close> returns a
  handle for the connector, \<open>OpenDB\<close> returns the \<open>db\<close> wrapper of exactly that handle
  with a nil error; whatever \<open>OpenDB\<close> returns has a nil error and a wrapper that is not
  the nil interface; and \<open>OpenDB\<close> panics only where the native call does.
\<close>

theorem OpenDB_has_no_error_path:
  "(\<forall>result w'. sql_OpenDB sql c w = (Return result, w') \<longrightarrow>
      OpenDB sql c w = (Return (Some \<lparr>DB = result\<rparr>, None), w')) \<and>
   (\<forall>r e w'. OpenDB sql c w = (Return (r, e), w') \<longrightarrow>
      e = None \<and> (\<exists>d. r = Some d \<and> sql_OpenDB sql c w = (Return (StdDB d), w'))) \<and>
   (\<forall>p w'. OpenDB sql c w = (Panic p, w') \<longleftrightarrow> sql_OpenDB sql c w = (Panic p, w'))"
  using OpenDB_returns [of sql c w] OpenDB_returned [of sql c w] OpenDB_panics [of sql c w]
  by blast

theorem OpenDB_has_no_error_path_witness:
  "OpenDB fake_sql (Some (driver_Connector 7)) world0 =
     (Return (Some \<lparr>DB = Some (sql_DB 0)\<rparr>, None), world0\<lparr>handles := 1\<rparr>)"
proof -
  have native: "sql_OpenDB fake_sql (Some (driver_Connector 7)) world0 =
      (Return (Some (sql_DB 0)), world0\<lparr>handles := 1\<rparr>)"
    by (simp add: fake_sql_def fake_OpenDB_def world0_def)
  from OpenDB_has_no_error_path [of fake_sql "Some (driver_Connector 7)" world0] native
  show ?thesis by blast
qed

text \<open>
  Claim C4. Each operation that produces a wrapper (\<open>Open\<close>, \<open>db.Prepare\<close>, \<open>db.BeginTx\<close>,
  \<open>tx.Prepare\<close>) returns a wrapper with a nil error exactly when the native call it
  delegates to returns with a nil error, and the wrapper is then the one built around
  the handle that call returned, in the world that call left; when the native call
  returns an error, the operation returns that error with the nil interface in place of
  a wrapper, and it returns an error only then. For each of the four operations, in
  this order: native success gives the wrapper of the native handle; a returned wrapper
  with a nil error comes from a native success with that wrapper's handle; a native
  error is returned as it is without a wrapper; a returned error is the native one.
\<close>

theorem wrapper_exactly_on_native_success:
  "((\<forall>r w'. sql_Open sql driverName dataSourceName w = (Return (r, None), w') \<longrightarrow>
       Open sql driverName dataSourceName w = (Return (Some \<lparr>DB = r\<rparr>, None), w')) \<and>
    (\<forall>x w'. Open sql driverName dataSourceName w = (Return (Some x, None), w') \<longrightarrow>
       sql_Open sql driverName dataSourceName w = (Return (StdDB x, None), w')) \<and>
    (\<forall>r e w'. sql_Open sql driverName dataSourceName w = (Return (r, Some e), w') \<longrightarrow>
       Open sql driverName dataSourceName w = (Return (None, Some e), w')) \<and>
    (\<forall>x e w'. Open sql driverName dataSourceName w = (Return (x, Some e), w') \<longrightarrow>
       x = None \<and> (\<exists>r. sql_Open sql driverName dataSourceName w = (Return (r, Some e), w')))) \<and>
   ((\<forall>r w'. DB_PrepareContext sql (StdDB d) ctx query w = (Return (r, None), w') \<longrightarrow>
       db_Prepare sql d ctx query w = (Return (Some \<lparr>Stmt = r\<rparr>, None), w')) \<and>
    (\<forall>x w'. db_Prepare sql d ctx query w = (Return (Some x, None), w') \<longrightarrow>
       DB_PrepareContext sql (StdDB d) ctx query w = (Return (StdStmt x, None), w')) \<and>
    (\<forall>r e w'. DB_PrepareContext sql (StdDB d) ctx query w = (Return (r, Some e), w') \<longrightarrow>
       db_Prepare sql d ctx query w = (Return (None, Some e), w')) \<and>
    (\<forall>x e w'. db_Prepare sql d ctx query w = (Return (x, Some e), w') \<longrightarrow>
       x = None \<and> (\<exists>r. DB_PrepareContext sql (StdDB d) ctx query w = (Return (r, Some e), w')))) \<and>
   ((\<forall>r w'. DB_BeginTx sql (StdDB d) ctx opts w = (Return (r, None), w') \<longrightarrow>
       db_BeginTx sql d ctx opts w = (Return (Some \<lparr>Tx = r\<rparr>, None), w')) \<and>
    (\<forall>x w'. db_BeginTx sql d ctx opts w = (Return (Some x, None), w') \<longrightarrow>
       DB_BeginTx sql (StdDB d) ctx opts w = (Return (StdTx x, None), w')) \<and>
    (\<forall>r e w'. DB_BeginTx sql (StdDB d) ctx opts w = (Return (r, Some e), w') \<longrightarrow>
       db_BeginTx sql d ctx opts w = (Return (None, Some e), w')) \<and>
    (\<forall>x e w'. db_BeginTx sql d ctx opts w = (Return (x, Some e), w') \<longrightarrow>
       x = None \<and> (\<exists>r. DB_BeginTx sql (StdDB d) ctx opts w = (Return (r, Some e), w')))) \<and>
   ((\<forall>r w'. Tx_PrepareContext sql (StdTx t) ctx query w = (Return (r, None), w') \<longrightarrow>
       tx_Prepare sql t ctx query w = (Return (Some \<lparr>Stmt = r\<rparr>, None), w')) \<and>
    (\<forall>x w'. tx_Prepare sql t ctx query w = (Return (Some x, None), w') \<longrightarrow>
       Tx_PrepareContext sql (StdTx t) ctx query w = (Return (StdStmt x, None), w')) \<and>
    (\<forall>r e w'. Tx_PrepareContext sql (StdTx t) ctx query w = (Return (r, Some e), w') \<longrightarrow>
       tx_Prepare sql t ctx query w = (Return (None, Some e), w')) \<and>
    (\<forall>x e w'. tx_Prepare sql t ctx query w = (Return (x, Some e), w') \<longrightarrow>
       x = None \<and> (\<exists>r. Tx_PrepareContext sql (StdTx t) ctx query w = (Return (r, Some e), w'))))"
  by (rule conjI [OF Open_tied conjI [OF db_Prepare_tied conjI [OF db_BeginTx_tied tx_Prepare_tied]]])

text \<open>
  On the test double: for each of the four operations one native failure, returned as
  it is without a wrapper, and one native success, returned as the wrapper of the very
  handle the double gave out, in the world the double left.
\<close>

theorem wrapper_exactly_on_native_success_witness:
  "Open fake_sql ''mysql'' ''dsn'' world0 =
     (Return (None, Some (Error ''sql: unknown driver'')), world0) \<and>
   Open fake_sql ''fake'' ''dsn'' world0 =
     (Return (Some \<lparr>DB = Some (sql_DB 0)\<rparr>, None), world0\<lparr>handles := 1\<rparr>) \<and>
   db_Prepare fake_sql \<lparr>DB = Some (sql_DB 0)\<rparr> (Context False) [] world0 =
     (Return (None, Some (Error ''syntax error'')), world0) \<and>
   db_Prepare fake_sql \<lparr>DB = Some (sql_DB 0)\<rparr> (Context False) ''SELECT 1'' world0 =
     (Return (Some \<lparr>Stmt = Some (sql_Stmt 0)\<rparr>, None), world0\<lparr>handles := 1\<rparr>) \<and>
   db_BeginTx fake_sql \<lparr>DB = Some (sql_DB 0)\<rparr> (Context True) None world0 =
     (Return (None, Some Canceled), world0) \<and>
   db_BeginTx fake_sql \<lparr>DB = Some (sql_DB 0)\<rparr> (Context False) None world0 =
     (Return (Some \<lparr>Tx = Some (sql_Tx 0)\<rparr>, None), world1) \<and>
   tx_Prepare fake_sql \<lparr>Tx = Some (sql_Tx 0)\<rparr> (Context False) ''SELECT 1'' world2 =
     (Return (None, Some ErrTxDone), world2) \<and>
   tx_Prepare fake_sql \<lparr>Tx = Some (sql_Tx 0)\<rparr> (Context False) ''SELECT 1'' world1 =
     (Return (Some \<lparr>Stmt = Some (sql_Stmt 1)\<rparr>, None), world1\<lparr>handles := 2\<rparr>)"
proof -
  let ?d = "\<lparr>DB = Some (sql_DB 0)\<rparr>" and ?t = "\<lparr>Tx = Some (sql_Tx 0)\<rparr>"
  have open_err: "sql_Open fake_sql ''mysql'' ''dsn'' world0 =
      (Return (None, Some (Error ''sql: unknown driver'')), world0)"
    by (simp add: fake_sql_def fake_Open_def)
  have open_ok: "sql_Open fake_sql ''fake'' ''dsn'' world0 =
      (Return (Some (sql_DB 0), None), world0\<lparr>handles := 1\<rparr>)"
    by (simp add: fake_sql_def fake_Open_def world0_def)
  have prep_err: "DB_PrepareContext fake_sql (StdDB ?d) (Context False) [] world0 =
      (Return (None, Some (Error ''syntax error'')), world0)"
    by (simp add: fake_sql_def fake_prepare_def StdDB_def)
  have prep_ok: "DB_PrepareContext fake_sql (StdDB ?d) (Context False) ''SELECT 1'' world0 =
      (Return (Some (sql_Stmt 0), None), world0\<lparr>handles := 1\<rparr>)"
    by (simp add: fake_sql_def fake_prepare_def StdDB_def world0_def)
  have begin_err: "DB_BeginTx fake_sql (StdDB ?d) (Context True) None world0 =
      (Return (None, Some Canceled), world0)"
    by (simp add: fake_sql_def fake_BeginTx_def StdDB_def)
  have begin_ok: "DB_BeginTx fake_sql (StdDB ?d) (Context False) None world0 =
      (Return (Some (sql_Tx 0), None), world1)"
    by (simp add: fake_sql_def fake_BeginTx_def StdDB_def world0_def world1_def)
  have txprep_err: "Tx_PrepareContext fake_sql (StdTx ?t) (Context False) ''SELECT 1'' world2 =
      (Return (None, Some ErrTxDone), world2)"
    by (simp add: fake_sql_def in_tx_def StdTx_def world2_def)
  have txprep_ok: "Tx_PrepareContext fake_sql (StdTx ?t) (Context False) ''SELECT 1'' world1 =
      (Return (Some (sql_Stmt 1), None), world1\<lparr>handles := 2\<rparr>)"
    by (simp add: fake_sql_def in_tx_def fake_prepare_def StdTx_def world1_def)
  note failing = wrapper_exactly_on_native_success
    [where sql = fake_sql and driverName = "''mysql''" and dataSourceName = "''dsn''"
       and w = world0 and d = ?d and ctx = "Context False" and query = "[]"
       and opts = None and t = ?t]
  note cancelled = wrapper_exactly_on_native_success
    [where sql = fake_sql and driverName = "''fake''" and dataSourceName = "''dsn''"
       and w = world0 and d = ?d and ctx = "Context True" and query = "''SELECT 1''"
       and opts = None and t = ?t]
  note succeeding = wrapper_exactly_on_native_success
    [where sql = fake_sql and driverName = "''fake''" and dataSourceName = "''dsn''"
       and w = world0 and d = ?d and ctx = "Context False" and query = "''SELECT 1''"
       and opts = None and t = ?t]
  note finished = wrapper_exactly_on_native_success
    [where sql = fake_sql and driverName = "''fake''" and dataSourceName = "''dsn''"
       and w = world2 and d = ?d and ctx = "Context False" and query = "''SELECT 1''"
       and opts = None and t = ?t]
  note running = wrapper_exactly_on_native_success
    [where sql = fake_sql and driverName = "''fake''" and dataSourceName = "''dsn''"
       and w = world1 and d = ?d and ctx = "Context False" and query = "''SELECT 1''"
       and opts = None and t = ?t]
  note c2 = conjunct2
  have 1: "Open fake_sql ''mysql'' ''dsn'' world0 =
      (Return (None, Some (Error ''sql: unknown driver'')), world0)"
    using failing [THEN conjunct1] open_err by blast
  have 2: "Open fake_sql ''fake'' ''dsn'' world0 =
      (Return (Some \<lparr>DB = Some (sql_DB 0)\<rparr>, None), world0\<lparr>handles := 1\<rparr>)"
    using succeeding [THEN conjunct1] open_ok by blast
  have 3: "db_Prepare fake_sql ?d (Context False) [] world0 =
      (Return (None, Some (Error ''syntax error'')), world0)"
    using failing [THEN c2, THEN conjunct1] prep_err by blast
  have 4: "db_Prepare fake_sql ?d (Context False) ''SELECT 1'' world0 =
      (Return (Some \<lparr>Stmt = Some (sql_Stmt 0)\<rparr>, None), world0\<lparr>handles := 1\<rparr>)"
    using succeeding [THEN c2, THEN conjunct1] prep_ok by blast
  have 5: "db_BeginTx fake_sql ?d (Context True) None world0 =
      (Return (None, Some Canceled), world0)"
    using cancelled [THEN c2, THEN c2, THEN conjunct1] begin_err by blast
  have 6: "db_BeginTx fake_sql ?d (Context False) None world0 =
      (Return (Some \<lparr>Tx = Some (sql_Tx 0)\<rparr>, None), world1)"
    using succeeding [THEN c2, THEN c2, THEN conjunct1] begin_ok by blast
  have 7: "tx_Prepare fake_sql ?t (Context False) ''SELECT 1'' world2 =
      (Return (None, Some ErrTxDone), world2)"
    using finished [THEN c2, THEN c2, THEN c2] txprep_err by blast
  have 8: "tx_Prepare fake_sql ?t (Context False) ''SELECT 1'' world1 =
      (Return (Some \<lparr>Stmt = Some (sql_Stmt 1)\<rparr>, None), world1\<lparr>handles := 2\<rparr>)"
    using running [THEN c2, THEN c2, THEN c2] txprep_ok by blast
  from 1 2 3 4 5 6 7 8 show ?thesis by blast
qed

text \<open>
  Claim C5. Each wrapper type satisfies its interface: \<open>db\<close> has every method of \<open>DB\<close>,
  \<open>stmt\<close> every method of \<open>Stmt\<close>, \<open>tx\<close> every method of \<open>Tx\<close>, with identical
  signatures. The methods the structs do not declare themselves are promoted from the
  embedded native handle: \<open>Driver\<close> for \<open>db\<close>, \<open>Close\<close> for \<open>stmt\<close>, \<open>Commit\<close> and
  \<open>Rollback\<close> for \<open>tx\<close>; given those four native methods, the three conformance
  assertions of the source hold. The check reads declarations only: no handle, no world
  and no call takes part in it.
\<close>

theorem wrappers_satisfy_their_interfaces:
  assumes "has_method (env (PointerTo (native ''DB'')))
      (''Driver'', Func [] None [Qualified ''database/sql/driver'' ''Driver''])"
    and "has_method (env (PointerTo (native ''Stmt''))) (''Close'', Func [] None [errorT])"
    and "has_method (env (PointerTo (native ''Tx''))) (''Commit'', Func [] None [errorT])"
    and "has_method (env (PointerTo (native ''Tx''))) (''Rollback'', Func [] None [errorT])"
  shows "implements (method_set env db_decl) DB_interface \<and>
         implements (method_set env stmt_decl) Stmt_interface \<and>
         implements (method_set env tx_decl) Tx_interface \<and>
         assertions_hold env conformance_assertions"
  using db_implements_DB [of env, OF assms(1)] stmt_implements_Stmt [of env, OF assms(2)]
    tx_implements_Tx [of env, OF assms(3) assms(4)]
  by (simp add: conformance_assertions_def)

theorem wrappers_satisfy_their_interfaces_witness:
  "implements (method_set database_sql_methods db_decl) DB_interface \<and>
   implements (method_set database_sql_methods stmt_decl) Stmt_interface \<and>
   implements (method_set database_sql_methods tx_decl) Tx_interface \<and>
   assertions_hold database_sql_methods conformance_assertions"
proof -
  have driver: "has_method (database_sql_methods (PointerTo (native ''DB'')))
      (''Driver'', Func [] None [Qualified ''database/sql/driver'' ''Driver''])"
    by (simp add: has_method_def)
  have close: "has_method (database_sql_methods (PointerTo (native ''Stmt'')))
      (''Close'', Func [] None [errorT])"
    by (simp add: has_method_def)
  have commit: "has_method (database_sql_methods (PointerTo (native ''Tx'')))
      (''Commit'', Func [] None [errorT])"
    by (simp add: has_method_def)
  have rollback: "has_method (database_sql_methods (PointerTo (native ''Tx'')))
      (''Rollback'', Func [] None [errorT])"
    by (simp add: has_method_def)
  show ?thesis
    by (rule wrappers_satisfy_their_interfaces
        [of database_sql_methods, OF driver close commit rollback])
qed

text \<open>
  Claim C6. The \<open>tx\<close> wrapper keeps no state of its own and forwards every \<open>Commit\<close> and
  \<open>Rollback\<close> to the native handle. The wrapper is nothing but its handle; any sequence
  of \<open>Commit\<close> and \<open>Rollback\<close> calls on the wrapper gives the results and the final world
  of the same sequence on the native handle; in particular, when the native handle
  answers the second \<open>Commit\<close> with its error for a finished transaction, the second
  \<open>Commit\<close> on the wrapper returns that error, not a success.
\<close>

theorem second_Commit_is_the_native_one:
  "t = \<lparr>Tx = StdTx t\<rparr> \<and>
   tx_run sql t cs w = Tx_run sql (StdTx t) cs w \<and>
   (\<forall>r w1 e w2.
      Tx_Commit sql (StdTx t) w = (Return r, w1) \<and>
      Tx_Commit sql (StdTx t) w1 = (Return (Some e), w2) \<longrightarrow>
      tx_run sql t [Commit, Commit] w = ([Return r, Return (Some e)], w2))"
proof (intro conjI allI impI)
  show "t = \<lparr>Tx = StdTx t\<rparr>"
    by (simp add: StdTx_def)
next
  show "tx_run sql t cs w = Tx_run sql (StdTx t) cs w"
    by (rule tx_run_forwards)
next
  fix r w1 e w2
  assume "Tx_Commit sql (StdTx t) w = (Return r, w1) \<and>
      Tx_Commit sql (StdTx t) w1 = (Return (Some e), w2)"
  then show "tx_run sql t [Commit, Commit] w = ([Return r, Return (Some e)], w2)"
    by (simp add: tx_run_forwards)
qed

theorem second_Commit_is_the_native_one_witness:
  "tx_run fake_sql \<lparr>Tx = Some (sql_Tx 0)\<rparr> [Commit, Commit] world1 =
     ([Return None, Return (Some ErrTxDone)], world2)"
proof -
  have first: "Tx_Commit fake_sql (StdTx \<lparr>Tx = Some (sql_Tx 0)\<rparr>) world1 = (Return None, world2)"
    by (simp add: fake_sql_def fake_finish_def StdTx_def world1_def world2_def)
  have second: "Tx_Commit fake_sql (StdTx \<lparr>Tx = Some (sql_Tx 0)\<rparr>) world2 =
      (Return (Some ErrTxDone), world2)"
    by (simp add: fake_sql_def fake_finish_def StdTx_def world2_def)
  from second_Commit_is_the_native_one
    [where sql = fake_sql and t = "\<lparr>Tx = Some (sql_Tx 0)\<rparr>" and w = world1] first second
  show ?thesis by blast
qed

text \<open>
  Claim C7. Wrapping and then unwrapping is the identity on native handles: \<open>StdDB\<close>,
  \<open>StdStmt\<close> and \<open>StdTx\<close> of a wrapper built around a handle return that handle, and
  when the native open call succeeds, the wrapper that \<open>Open\<close> returns gives through
  \<open>StdDB\<close> the very handle the native call produced.
\<close>

theorem unwrap_is_inverse_of_wrap:
  "StdDB \<lparr>DB = h\<rparr> = h \<and> StdStmt \<lparr>Stmt = s\<rparr> = s \<and> StdTx \<lparr>Tx = t\<rparr> = t \<and>
   (\<forall>result w'. sql_Open sql driverName dataSourceName w = (Return (result, None), w') \<longrightarrow>
      (\<exists>d. Open sql driverName dataSourceName w = (Return (Some d, None), w') \<and> StdDB d = result))"
  using forwards_wrapped_ok [OF Open_forwards [of sql driverName dataSourceName w]]
  by (simp add: StdDB_def StdStmt_def StdTx_def)

theorem unwrap_is_inverse_of_wrap_witness:
  "\<exists>d. Open fake_sql ''fake'' ''dsn'' world0 = (Return (Some d, None), world0\<lparr>handles := 1\<rparr>) \<and>
       StdDB d = Some (sql_DB 0)"
proof -
  have native: "sql_Open fake_sql ''fake'' ''dsn'' world0 =
      (Return (Some (sql_DB 0), None), world0\<lparr>handles := 1\<rparr>)"
    by (simp add: fake_sql_def fake_Open_def world0_def)
  from unwrap_is_inverse_of_wrap [where sql = fake_sql and driverName = "''fake''"
      and dataSourceName = "''dsn''" and w = world0] native
  show ?thesis by blast
qed

text \<open>
  Claim C8. Every re-exported value type is an alias of the native type of the same
  name: the file declares it with \<open>=\<close>, so the local name and the native name denote
  identical types.
\<close>

theorem reexported_types_are_aliases:
  "\<forall>n \<in> set [''TxOptions'', ''Row'', ''Rows'', ''IsolationLevel'', ''Result'', ''NamedArg'',
      ''NullBool'', ''NullFloat64'', ''NullInt32'', ''NullInt64'', ''NullString'', ''NullTime'',
      ''Out'', ''RawBytes'', ''DBStats''].
     map_of aliases n = Some (native n) \<and> identical (Local n) (native n)"
  by (simp add: aliases_def identical_def)

theorem reexported_types_are_aliases_witness:
  "map_of aliases ''NullTime'' = Some (native ''NullTime'') \<and>
   identical (Local ''NullTime'') (native ''NullTime'')"
  using reexported_types_are_aliases by simp

text \<open>
  Claim C9. Both native row shapes satisfy \<open>Scanner\<close> as they are: the pointer to the
  single-row type, written \<open>*Row\<close> through the alias, and the pointer to the row-set
  type, \<open>*Rows\<close>, each have \<open>Scan(...interface{}) error\<close> in their method set.
\<close>

theorem native_rows_satisfy_Scanner:
  "implements (methods_of_type database_sql_methods (PointerTo (Local ''Row''))) Scanner_interface \<and>
   implements (methods_of_type database_sql_methods (PointerTo (Local ''Rows''))) Scanner_interface"
  by (simp add: methods_of_type_def aliases_def Scanner_interface_def has_method_def)

text \<open>
  Claim C10. No wrapper method guards against a missing native handle. On the zero value
  of a wrapper, whose embedded pointer is nil, every accessor returns nil and every
  operation is the native operation on the nil handle, with the same arguments: the
  layer adds no check and no error of its own, so what happens is whatever the native
  method does with a nil receiver.
\<close>

theorem zero_value_wrappers_delegate_to_nil:
  "StdDB \<lparr>DB = None\<rparr> = None \<and> StdStmt \<lparr>Stmt = None\<rparr> = None \<and> StdTx \<lparr>Tx = None\<rparr> = None \<and>
   db_Ping sql \<lparr>DB = None\<rparr> ctx w = DB_PingContext sql None ctx w \<and>
   db_Exec sql \<lparr>DB = None\<rparr> ctx query args w = DB_ExecContext sql None ctx query args w \<and>
   db_Query sql \<lparr>DB = None\<rparr> ctx query args w = DB_QueryContext sql None ctx query args w \<and>
   db_QueryRow sql \<lparr>DB = None\<rparr> ctx query args w = DB_QueryRowContext sql None ctx query args w \<and>
   db_Driver sql \<lparr>DB = None\<rparr> w = DB_Driver sql None w \<and>
   db_Close sql \<lparr>DB = None\<rparr> w = DB_Close sql None w \<and>
   forwards_wrapped StdStmt (DB_PrepareContext sql None ctx query w)
     (db_Prepare sql \<lparr>DB = None\<rparr> ctx query w) \<and>
   forwards_wrapped StdTx (DB_BeginTx sql None ctx opts w)
     (db_BeginTx sql \<lparr>DB = None\<rparr> ctx opts w) \<and>
   stmt_Exec sql \<lparr>Stmt = None\<rparr> ctx args w = Stmt_ExecContext sql None ctx args w \<and>
   stmt_Query sql \<lparr>Stmt = None\<rparr> ctx args w = Stmt_QueryContext sql None ctx args w \<and>
   stmt_QueryRow sql \<lparr>Stmt = None\<rparr> ctx args w = Stmt_QueryRowContext sql None ctx args w \<and>
   stmt_Close sql \<lparr>Stmt = None\<rparr> w = Stmt_Close sql None w \<and>
   tx_Commit sql \<lparr>Tx = None\<rparr> w = Tx_Commit sql None w \<and>
   tx_Rollback sql \<lparr>Tx = None\<rparr> w = Tx_Rollback sql None w \<and>
   tx_Exec sql \<lparr>Tx = None\<rparr> ctx query args w = Tx_ExecContext sql None ctx query args w \<and>
   tx_Query sql \<lparr>Tx = None\<rparr> ctx query args w = Tx_QueryContext sql None ctx query args w \<and>
   tx_QueryRow sql \<lparr>Tx = None\<rparr> ctx query args w = Tx_QueryRowContext sql None ctx query args w \<and>
   forwards_wrapped StdStmt (Tx_PrepareContext sql None ctx query w)
     (tx_Prepare sql \<lparr>Tx = None\<rparr> ctx query w)"
  using db_Prepare_forwards [of sql "\<lparr>DB = None\<rparr>" ctx query w]
    db_BeginTx_forwards [of sql "\<lparr>DB = None\<rparr>" ctx opts w]
    tx_Prepare_forwards [of sql "\<lparr>Tx = None\<rparr>" ctx query w]
  by (simp add: db_Ping_def db_Exec_def db_Query_def db_QueryRow_def db_Driver_def db_Close_def
      stmt_Exec_def stmt_Query_def stmt_QueryRow_def stmt_Close_def
      tx_Commit_def tx_Rollback_def tx_Exec_def tx_Query_def tx_QueryRow_def
      StdDB_def StdStmt_def StdTx_def)

text \<open>
  On the test double, whose methods panic on a nil receiver as Go's do, the operations
  of the zero values panic.
\<close>

theorem zero_value_wrappers_delegate_to_nil_witness:
  "db_Ping fake_sql \<lparr>DB = None\<rparr> (Context False) world0 = (Panic nil_dereference, world0) \<and>
   db_Prepare fake_sql \<lparr>DB = None\<rparr> (Context False) ''SELECT 1'' world0 =
     (Panic nil_dereference, world0) \<and>
   stmt_Exec fake_sql \<lparr>Stmt = None\<rparr> (Context False) [] world0 = (Panic nil_dereference, world0) \<and>
   tx_Commit fake_sql \<lparr>Tx = None\<rparr> world0 = (Panic nil_dereference, world0)"
  using zero_value_wrappers_delegate_to_nil
    [where sql = fake_sql and ctx = "Context False" and query = "''SELECT 1''" and args = "[]"
       and opts = None and w = world0]
  by (simp add: forwards_wrapped_def fake_sql_def fake_ping_def fake_prepare_def fake_exec_def
      fake_finish_def)

end
